theory Spec2Isabelle
  imports Complex_Main "HOL-Library.Monad_Syntax"
begin

section \<open>Numbers\<close>

text \<open>
  The script computes with JavaScript numbers, IEEE 754 doubles. Their arithmetic is
  not fixed in this theory: it is a parameter of every function that computes with
  coordinates, a record of the operations the script uses on some type \<open>'n\<close> of
  numbers (subtraction, addition, multiplication, \<open>Math.pow(v, 2)\<close>, \<open>Math.sqrt\<close>, the
  comparison \<open><\<close>, and the number a decimal literal of the source denotes). What is
  proved for every such record holds of the doubles, with their rounding, overflow,
  underflow and NaN. The language defines \<open>a > b\<close> as \<open>b < a\<close>, so one comparison is
  enough.
\<close>

record 'n arith =
  n_sub :: "'n \<Rightarrow> 'n \<Rightarrow> 'n"
  n_add :: "'n \<Rightarrow> 'n \<Rightarrow> 'n"
  n_mul :: "'n \<Rightarrow> 'n \<Rightarrow> 'n"
  n_pow2 :: "'n \<Rightarrow> 'n"
  n_sqrt :: "'n \<Rightarrow> 'n"
  n_lt :: "'n \<Rightarrow> 'n \<Rightarrow> bool"
  n_lit :: "real \<Rightarrow> 'n"

text \<open>
  Exact arithmetic on the reals is one such record. It agrees with the doubles where
  every operand and every intermediate result is a double, as on the example hands
  below, whose coordinates are 0, 1 and 2.
\<close>

definition exact :: "real arith" where
  "exact = \<lparr>n_sub = (\<lambda>a b. a - b), n_add = (\<lambda>a b. a + b), n_mul = (\<lambda>a b. a * b),
            n_pow2 = (\<lambda>a. a\<^sup>2), n_sqrt = sqrt, n_lt = (\<lambda>a b. a < b), n_lit = (\<lambda>q. q)\<rparr>"

section \<open>Hand landmarks\<close>

text \<open>
  A landmark is an object with three numeric properties \<open>x\<close>, \<open>y\<close>, \<open>z\<close>. A landmark
  array is a list; reading an index past its end gives \<open>undefined\<close> (here \<open>None\<close>), and
  reading a property of \<open>undefined\<close> throws a TypeError. In the pure functions below the
  result \<open>None\<close> stands for "a TypeError was thrown", the only exception they can raise.
\<close>

record 'n landmark =
  coord_x :: 'n
  coord_y :: 'n
  coord_z :: 'n

definition landmark_at :: "'n landmark list \<Rightarrow> nat \<Rightarrow> 'n landmark option" where
  \<comment> \<open>\<open>landmarks[i]\<close>\<close>
  "landmark_at landmarks i = (if i < length landmarks then Some (landmarks ! i) else None)"

definition getprop :: "('n landmark \<Rightarrow> 'n) \<Rightarrow> 'n landmark option \<Rightarrow> 'n option" where
  \<comment> \<open>\<open>p.x\<close>, \<open>p.y\<close>, \<open>p.z\<close> on a value that may be \<open>undefined\<close>\<close>
  "getprop f p = map_option f p"

subsection \<open>LANDMARK_INDICES and the finger arrays\<close>

definition WRIST :: nat where "WRIST = 0"
definition THUMB_CMC :: nat where "THUMB_CMC = 1"
definition THUMB_MCP :: nat where "THUMB_MCP = 2"
definition THUMB_PIP :: nat where "THUMB_PIP = 3"
definition THUMB_TIP :: nat where "THUMB_TIP = 4"
definition INDEX_MCP :: nat where "INDEX_MCP = 5"
definition INDEX_PIP :: nat where "INDEX_PIP = 6"
definition INDEX_DIP :: nat where "INDEX_DIP = 7"
definition INDEX_TIP :: nat where "INDEX_TIP = 8"
definition MIDDLE_MCP :: nat where "MIDDLE_MCP = 9"
definition MIDDLE_PIP :: nat where "MIDDLE_PIP = 10"
definition MIDDLE_DIP :: nat where "MIDDLE_DIP = 11"
definition MIDDLE_TIP :: nat where "MIDDLE_TIP = 12"
definition RING_MCP :: nat where "RING_MCP = 13"
definition RING_PIP :: nat where "RING_PIP = 14"
definition RING_DIP :: nat where "RING_DIP = 15"
definition RING_TIP :: nat where "RING_TIP = 16"
definition PINKY_MCP :: nat where "PINKY_MCP = 17"
definition PINKY_PIP :: nat where "PINKY_PIP = 18"
definition PINKY_DIP :: nat where "PINKY_DIP = 19"
definition PINKY_TIP :: nat where "PINKY_TIP = 20"

lemmas LANDMARK_INDICES =
  WRIST_def THUMB_CMC_def THUMB_MCP_def THUMB_PIP_def THUMB_TIP_def
  INDEX_MCP_def INDEX_PIP_def INDEX_DIP_def INDEX_TIP_def
  MIDDLE_MCP_def MIDDLE_PIP_def MIDDLE_DIP_def MIDDLE_TIP_def
  RING_MCP_def RING_PIP_def RING_DIP_def RING_TIP_def
  PINKY_MCP_def PINKY_PIP_def PINKY_DIP_def PINKY_TIP_def

text \<open>
  The five finger arrays are five distinct objects; \<open>finger === THUMB\<close> compares
  object identity, which is equality of the constructors here. \<open>joints\<close> gives the
  contents of each array.
\<close>

datatype finger = THUMB | INDEX_FINGER | MIDDLE_FINGER | RING_FINGER | PINKY_FINGER

fun joints :: "finger \<Rightarrow> nat list" where
  "joints THUMB = [THUMB_CMC, THUMB_MCP, THUMB_PIP, THUMB_TIP]"
| "joints INDEX_FINGER = [INDEX_MCP, INDEX_PIP, INDEX_DIP, INDEX_TIP]"
| "joints MIDDLE_FINGER = [MIDDLE_MCP, MIDDLE_PIP, MIDDLE_DIP, MIDDLE_TIP]"
| "joints RING_FINGER = [RING_MCP, RING_PIP, RING_DIP, RING_TIP]"
| "joints PINKY_FINGER = [PINKY_MCP, PINKY_PIP, PINKY_DIP, PINKY_TIP]"

section \<open>Core utility functions\<close>

definition distance :: "'n arith \<Rightarrow> 'n landmark option \<Rightarrow> 'n landmark option \<Rightarrow> 'n option" where
  "distance ar p1 p2 = do {
     a \<leftarrow> p1;
     b \<leftarrow> p2;
     Some (n_sqrt ar
            (n_add ar
              (n_add ar (n_pow2 ar (n_sub ar (coord_x a) (coord_x b)))
                        (n_pow2 ar (n_sub ar (coord_y a) (coord_y b))))
              (n_pow2 ar (n_sub ar (coord_z a) (coord_z b)))))
   }"

definition isExtended :: "'n arith \<Rightarrow> 'n landmark list \<Rightarrow> finger \<Rightarrow> bool option" where
  "isExtended ar landmarks finger =
    (let mcp = landmark_at landmarks (joints finger ! 0);
         pip = landmark_at landmarks (joints finger ! 1);
         tip = landmark_at landmarks (joints finger ! 3)
     in if finger = THUMB then do {
          tip_z \<leftarrow> getprop coord_z tip;
          mcp_z \<leftarrow> getprop coord_z mcp;
          let isTipForward = n_lt ar tip_z mcp_z;
          distFromCmcToTip \<leftarrow> distance ar (landmark_at landmarks (joints THUMB ! 0)) tip;
          distFromCmcToMcp \<leftarrow> distance ar (landmark_at landmarks (joints THUMB ! 0)) mcp;
          Some (n_lt ar (n_mul ar distFromCmcToMcp (n_lit ar 1.5)) distFromCmcToTip
                \<and> isTipForward)
        } else do {
          pip_y \<leftarrow> getprop coord_y pip;
          tip_y \<leftarrow> getprop coord_y tip;
          let isTipAbovePip = n_lt ar tip_y pip_y;
          mcp_y \<leftarrow> getprop coord_y mcp;
          let isTipAboveMcp = n_lt ar tip_y mcp_y;
          Some (isTipAbovePip \<and> isTipAboveMcp)
        })"

section \<open>The gesture classifier\<close>

text \<open>
  The argument is \<open>None\<close> for a missing (null or undefined) landmark array. The signs
  are the one-character strings \<open>A\<close>, \<open>B\<close>, \<open>C\<close>, \<open>F\<close>, \<open>L\<close> and \<open>?\<close> (unknown).
\<close>

definition classifyLetterGesture :: "'n arith \<Rightarrow> 'n landmark list option \<Rightarrow> char option" where
  "classifyLetterGesture ar arg =
    (case arg of
       None \<Rightarrow> Some CHR ''?''
     | Some landmarks \<Rightarrow>
        if length landmarks = 0 then Some CHR ''?''
        else do {
          thumbExtended \<leftarrow> isExtended ar landmarks THUMB;
          indexExtended \<leftarrow> isExtended ar landmarks INDEX_FINGER;
          middleExtended \<leftarrow> isExtended ar landmarks MIDDLE_FINGER;
          ringExtended \<leftarrow> isExtended ar landmarks RING_FINGER;
          pinkyExtended \<leftarrow> isExtended ar landmarks PINKY_FINGER;
          let indexCurled = \<not> indexExtended;
          let middleCurled = \<not> middleExtended;
          let ringCurled = \<not> ringExtended;
          let pinkyCurled = \<not> pinkyExtended;
          let allCurled = (indexCurled \<and> middleCurled \<and> ringCurled \<and> pinkyCurled);
          let fourFingersExtended =
                (indexExtended \<and> middleExtended \<and> ringExtended \<and> pinkyExtended);
          handSize \<leftarrow> distance ar (landmark_at landmarks WRIST) (landmark_at landmarks PINKY_MCP);
          tipDist \<leftarrow> distance ar (landmark_at landmarks INDEX_TIP) (landmark_at landmarks PINKY_TIP);
          if thumbExtended \<and> indexExtended \<and> middleCurled \<and> ringCurled \<and> pinkyCurled
          then Some CHR ''L''
          else do {
            pinchDistanceF \<leftarrow>
              distance ar (landmark_at landmarks THUMB_TIP) (landmark_at landmarks INDEX_TIP);
            if n_lt ar pinchDistanceF (n_lit ar 0.08) \<and> middleExtended \<and> ringExtended \<and> pinkyExtended
            then Some CHR ''F''
            else do {
              isB \<leftarrow> (if fourFingersExtended then do {
                         tuckedDist \<leftarrow> distance ar (landmark_at landmarks THUMB_TIP)
                                                (landmark_at landmarks INDEX_MCP);
                         Some (n_lt ar tuckedDist (n_mul ar handSize (n_lit ar 0.25)))
                       } else Some False);
              if isB then Some CHR ''B''
              else do {
                isC \<leftarrow> (if allCurled then
                          (if n_lt ar (n_mul ar handSize (n_lit ar 0.5)) tipDist then do {
                             thumbTipDistToIndexBase \<leftarrow>
                               distance ar (landmark_at landmarks THUMB_TIP)
                                        (landmark_at landmarks INDEX_MCP);
                             Some (n_lt ar (n_mul ar handSize (n_lit ar 0.15))
                                         thumbTipDistToIndexBase)
                           } else Some False)
                        else Some False);
                if isC then Some CHR ''C''
                else if allCurled then Some CHR ''A''
                else Some CHR ''?''
              }
            }
          }
        })"

section \<open>Translation state\<close>

text \<open>
  The three module variables, and the text content of the three page elements the
  script writes to. Which page elements exist is fixed when the script loads
  (\<open>getElementById\<close> gives \<open>null\<close> for a missing one); it is the \<open>page\<close> record.
\<close>

record state =
  currentTranslation :: string
  lastSign :: char
  stabilityCount :: nat
  resultText :: string
  statusText :: string
  translationText :: string

record page =
  canvasElement :: bool
  canvasCtx :: bool
  resultElement :: bool
  statusElement :: bool
  translationTextElement :: bool

definition fullPage :: page where
  \<comment> \<open>a page that has every element the script looks up\<close>
  "fullPage = \<lparr>canvasElement = True, canvasCtx = True, resultElement = True,
               statusElement = True, translationTextElement = True\<rparr>"

definition STABILITY_THRESHOLD :: nat where
  "STABILITY_THRESHOLD = 20"

definition initState :: "string \<Rightarrow> string \<Rightarrow> string \<Rightarrow> state" where
  \<comment> \<open>the variables as declared; the texts shown by the page are whatever they are\<close>
  "initState result status translation =
     \<lparr>currentTranslation = [], lastSign = CHR ''?'', stabilityCount = 0,
      resultText = result, statusText = status, translationText = translation\<rparr>"

datatype error = TypeError

datatype outcome = Returned | Threw error

definition clearTranslation :: "page \<Rightarrow> state \<Rightarrow> outcome \<times> state" where
  "clearTranslation pg s =
    (let s1 = s\<lparr>currentTranslation := []\<rparr>;
         s2 = (if translationTextElement pg then s1\<lparr>translationText := []\<rparr> else s1);
         s3 = s2\<lparr>lastSign := CHR ''?''\<rparr>;
         s4 = s3\<lparr>stabilityCount := 0\<rparr>
     in if statusElement pg then (Returned, s4\<lparr>statusText := ''Translation Cleared.''\<rparr>)
        else (Threw TypeError, s4))"

subsection \<open>The debounce logic of onResults\<close>

definition committedStatus :: "char \<Rightarrow> string" where
  "committedStatus classifiedSign =
     ''Sign Committed: '' @ [CHR 0x27] @ [classifiedSign] @ [CHR 0x27]"

definition changedStatus :: "char \<Rightarrow> string" where
  "changedStatus classifiedSign = ''Sign changed to: '' @ [classifiedSign] @ ''. Holding...''"

definition update :: "char \<Rightarrow> state \<Rightarrow> state" where
  \<comment> \<open>the block under TRANSLATION DEBOUNCE LOGIC, run when a hand was detected\<close>
  "update classifiedSign s =
    (if classifiedSign \<noteq> CHR ''?'' \<and> classifiedSign = lastSign s then
       (let s1 = s\<lparr>stabilityCount := stabilityCount s + 1\<rparr>
        in if stabilityCount s1 = STABILITY_THRESHOLD then
             (let s2 = s1\<lparr>currentTranslation := currentTranslation s1 @ [classifiedSign]\<rparr>;
                  s3 = s2\<lparr>translationText := currentTranslation s2\<rparr>;
                  s4 = s3\<lparr>stabilityCount := 1\<rparr>
              in s4\<lparr>statusText := committedStatus classifiedSign\<rparr>)
           else s1)
     else if classifiedSign \<noteq> lastSign s then
       (let s1 = s\<lparr>lastSign := classifiedSign\<rparr>;
            s2 = s1\<lparr>stabilityCount := 0\<rparr>
        in s2\<lparr>statusText := changedStatus classifiedSign\<rparr>)
     else s)"

definition noHand :: "state \<Rightarrow> state" where
  \<comment> \<open>the else branch: no hand detected, reset stability\<close>
  "noHand s = s\<lparr>lastSign := CHR ''?'', stabilityCount := 0\<rparr>"

subsection \<open>onResults\<close>

fun decimal :: "nat \<Rightarrow> string" where
  "decimal n =
     (if n < 10 then [char_of (48 + n)] else decimal (n div 10) @ [char_of (48 + n mod 10)])"

declare decimal.simps [simp del]

definition showResult :: "nat \<Rightarrow> char \<Rightarrow> state \<Rightarrow> state" where
  \<comment> \<open>the lines after the hand branch\<close>
  "showResult detectedHands classifiedSign s =
    (let s1 = s\<lparr>resultText := [classifiedSign]\<rparr>
     in if detectedHands = 0 then
          s1\<lparr>statusText := ''No Hand Detected. Please show your hand.''\<rparr>
        else if detectedHands > 1 then
          s1\<lparr>statusText := ''Warning: Detected '' @ decimal detectedHands
                              @ '' hands. Focusing on the first one.''\<rparr>
        else s1)"

text \<open>
  The canvas drawing calls and the library's \<open>drawConnectors\<close> and \<open>drawLandmarks\<close>
  touch neither the variables nor the three texts and are left out. A TypeError out
  of the classifier leaves the function before any variable is written.
\<close>

definition onResults ::
  "'n arith \<Rightarrow> page \<Rightarrow> 'n landmark list list option \<Rightarrow> state \<Rightarrow> outcome \<times> state" where
  "onResults ar pg multiHandLandmarks s =
    (if \<not> canvasCtx pg \<or> \<not> canvasElement pg \<or> \<not> resultElement pg \<or> \<not> statusElement pg
        \<or> \<not> translationTextElement pg
     then (Returned, s)
     else case multiHandLandmarks of
            Some (landmarks # others) \<Rightarrow>
              (case classifyLetterGesture ar (Some landmarks) of
                 None \<Rightarrow> (Threw TypeError, s)
               | Some classifiedSign \<Rightarrow>
                   (Returned, showResult (length (landmarks # others)) classifiedSign
                                (update classifiedSign s)))
          | _ \<Rightarrow> (Returned, showResult 0 CHR ''?'' (noHand s)))"

subsection \<open>Sequences of calls\<close>

text \<open>
  What can happen to the state during a session, one call after the other: the debounce
  block on a classified frame, the branch for a frame without a hand, a whole
  \<open>onResults\<close> call, and \<open>clearTranslation\<close>. \<open>run\<close> applies a list of them in order.
\<close>

datatype 'n event =
    Update char
  | NoHand
  | OnResults "'n landmark list list option"
  | ClearTranslation

fun apply_event :: "'n arith \<Rightarrow> page \<Rightarrow> 'n event \<Rightarrow> state \<Rightarrow> state" where
  "apply_event ar pg (Update classifiedSign) s = update classifiedSign s"
| "apply_event ar pg NoHand s = noHand s"
| "apply_event ar pg (OnResults multiHandLandmarks) s =
     snd (onResults ar pg multiHandLandmarks s)"
| "apply_event ar pg ClearTranslation s = snd (clearTranslation pg s)"

fun run :: "'n arith \<Rightarrow> page \<Rightarrow> 'n event list \<Rightarrow> state \<Rightarrow> state" where
  "run ar pg [] s = s"
| "run ar pg (e # es) s = run ar pg es (apply_event ar pg e s)"

section \<open>The finger test as the specification words it\<close>

text \<open>
  Stated from the specification's words (section 4.1), to be compared with
  \<open>isExtended\<close>: for the thumb, \<open>distance(cmc, tip) > 1.5 * distance(cmc, mcp)\<close> and
  \<open>tip.z < mcp.z\<close>; for any other finger, the tip's y strictly less than the PIP joint's
  and the MCP joint's.
\<close>

definition isExtended_spec :: "'n arith \<Rightarrow> 'n landmark list \<Rightarrow> finger \<Rightarrow> bool option" where
  "isExtended_spec ar hand finger =
    (if finger = THUMB then do {
       cmc \<leftarrow> landmark_at hand THUMB_CMC;
       mcp \<leftarrow> landmark_at hand THUMB_MCP;
       tip \<leftarrow> landmark_at hand THUMB_TIP;
       cmc_tip \<leftarrow> distance ar (Some cmc) (Some tip);
       cmc_mcp \<leftarrow> distance ar (Some cmc) (Some mcp);
       Some (n_lt ar (n_mul ar (n_lit ar 1.5) cmc_mcp) cmc_tip
             \<and> n_lt ar (coord_z tip) (coord_z mcp))
     } else do {
       mcp \<leftarrow> landmark_at hand (joints finger ! 0);
       pip \<leftarrow> landmark_at hand (joints finger ! 1);
       tip \<leftarrow> landmark_at hand (joints finger ! 3);
       Some (n_lt ar (coord_y tip) (coord_y pip) \<and> n_lt ar (coord_y tip) (coord_y mcp))
     })"

text \<open>A landmark to build example hands from.\<close>

definition origin :: "real landmark" where
  "origin = \<lparr>coord_x = 0, coord_y = 0, coord_z = 0\<rparr>"

section \<open>The debounce logic, branch by branch\<close>

lemma update_changed:
  "classifiedSign \<noteq> lastSign s \<Longrightarrow>
   update classifiedSign s =
     s\<lparr>lastSign := classifiedSign, stabilityCount := 0,
       statusText := changedStatus classifiedSign\<rparr>"
  by (simp add: update_def)

lemma update_hold:
  "c \<noteq> CHR ''?'' \<Longrightarrow> lastSign s = c \<Longrightarrow> stabilityCount s \<noteq> 19 \<Longrightarrow>
   update c s = s\<lparr>stabilityCount := stabilityCount s + 1\<rparr>"
  by (simp add: update_def STABILITY_THRESHOLD_def)

lemma update_commit:
  "c \<noteq> CHR ''?'' \<Longrightarrow> lastSign s = c \<Longrightarrow> stabilityCount s = 19 \<Longrightarrow>
   update c s = s\<lparr>stabilityCount := 1,
                  currentTranslation := currentTranslation s @ [c],
                  translationText := currentTranslation s @ [c],
                  statusText := committedStatus c\<rparr>"
  by (simp add: update_def STABILITY_THRESHOLD_def)

lemma changed_not_committed: "changedStatus c \<noteq> committedStatus c'"
  by (simp add: changedStatus_def committedStatus_def)

text \<open>Holding a sign for \<open>k\<close> frames below the threshold only counts.\<close>

lemma hold_run:
  "c \<noteq> CHR ''?'' \<Longrightarrow> lastSign s = c \<Longrightarrow> stabilityCount s + k < 20 \<Longrightarrow>
   (update c ^^ k) s = s\<lparr>stabilityCount := stabilityCount s + k\<rparr>"
proof (induction k)
  case 0
  then show ?case by simp
next
  case (Suc k)
  then show ?case by (simp add: update_hold)
qed

text \<open>
  From the initial state the first frame of a sign takes the "changed" branch and
  leaves the counter at 0, so after \<open>k + 1\<close> frames the counter is \<open>k\<close>.
\<close>

lemma run_from_init:
  assumes "c \<noteq> CHR ''?''" and "k < 20"
  shows "(update c ^^ Suc k) (initState r st t) =
         (initState r st t)\<lparr>lastSign := c, stabilityCount := k, statusText := changedStatus c\<rparr>"
proof -
  let ?s1 = "(initState r st t)\<lparr>lastSign := c, stabilityCount := 0,
                               statusText := changedStatus c\<rparr>"
  have first: "update c (initState r st t) = ?s1"
    using assms(1) by (simp add: update_changed initState_def)
  have "(update c ^^ Suc k) (initState r st t) = (update c ^^ k) ?s1"
    by (simp add: funpow_swap1 first)
  also have "\<dots> = ?s1\<lparr>stabilityCount := stabilityCount ?s1 + k\<rparr>"
    using assms by (intro hold_run) simp_all
  finally show ?thesis by simp
qed

lemma run_commit_from_init:
  assumes "c \<noteq> CHR ''?''"
  shows "(update c ^^ 21) (initState r st t) =
         (initState r st t)\<lparr>lastSign := c, stabilityCount := 1,
                             currentTranslation := [c], translationText := [c],
                             statusText := committedStatus c\<rparr>"
proof -
  have r20: "(update c ^^ Suc 19) (initState r st t) =
             (initState r st t)\<lparr>lastSign := c, stabilityCount := 19,
                                 statusText := changedStatus c\<rparr>"
    using assms by (intro run_from_init) simp_all
  have "(update c ^^ 21) (initState r st t) = update c ((update c ^^ Suc 19) (initState r st t))"
    by (simp add: eval_nat_numeral)
  also have "\<dots> = update c ((initState r st t)\<lparr>lastSign := c, stabilityCount := 19,
                                                  statusText := changedStatus c\<rparr>)"
    by (simp only: r20)
  also have "\<dots> = (initState r st t)\<lparr>lastSign := c, stabilityCount := 1,
                             currentTranslation := [c], translationText := [c],
                             statusText := committedStatus c\<rparr>"
    using assms by (simp add: update_commit initState_def)
  finally show ?thesis .
qed

text \<open>After a commit the counter is 1, and the same sign keeps counting from there.\<close>

lemma run_after_commit:
  assumes "c \<noteq> CHR ''?''" and "lastSign s = c" and "stabilityCount s = 19" and "k \<le> 18"
  shows "(update c ^^ k) (update c s) =
         s\<lparr>stabilityCount := 1 + k,
           currentTranslation := currentTranslation s @ [c],
           translationText := currentTranslation s @ [c],
           statusText := committedStatus c\<rparr>"
proof -
  let ?s1 = "s\<lparr>stabilityCount := 1,
               currentTranslation := currentTranslation s @ [c],
               translationText := currentTranslation s @ [c],
               statusText := committedStatus c\<rparr>"
  have "update c s = ?s1"
    using assms(1-3) by (rule update_commit)
  moreover have "(update c ^^ k) ?s1 = ?s1\<lparr>stabilityCount := stabilityCount ?s1 + k\<rparr>"
    using assms by (intro hold_run) simp_all
  ultimately show ?thesis by simp
qed

lemma run_recommit:
  assumes "c \<noteq> CHR ''?''" and "lastSign s = c" and "stabilityCount s = 19"
  shows "(update c ^^ 19) (update c s) =
         s\<lparr>stabilityCount := 1,
           currentTranslation := currentTranslation s @ [c, c],
           translationText := currentTranslation s @ [c, c],
           statusText := committedStatus c\<rparr>"
proof -
  have r18: "(update c ^^ 18) (update c s) =
             s\<lparr>stabilityCount := 1 + 18,
               currentTranslation := currentTranslation s @ [c],
               translationText := currentTranslation s @ [c],
               statusText := committedStatus c\<rparr>"
    using assms by (intro run_after_commit) simp_all
  have "(update c ^^ 19) (update c s) = update c ((update c ^^ 18) (update c s))"
    by (simp add: eval_nat_numeral)
  also have "\<dots> = update c (s\<lparr>stabilityCount := 19,
               currentTranslation := currentTranslation s @ [c],
               translationText := currentTranslation s @ [c],
               statusText := committedStatus c\<rparr>)"
    by (simp only: r18) simp
  finally show ?thesis
    using assms(1,2) by (simp add: update_commit)
qed

section \<open>Commit timing\<close>

text \<open>
  C1, as the specification states it, fails: after the same sign has been fed 20 times
  from the initial state the transcript is still empty and the status is not the
  committed one. The first call only records the sign; the counter reaches 19.
\<close>

theorem C1_twenty_calls_counterexample:
  "currentTranslation ((update CHR ''A'' ^^ 20) (initState [] [] [])) = []
   \<and> statusText ((update CHR ''A'' ^^ 20) (initState [] [] [])) \<noteq> committedStatus CHR ''A''
   \<and> stabilityCount ((update CHR ''A'' ^^ 20) (initState [] [] [])) = 19"
  using run_from_init [of "CHR ''A''" 19 "[]" "[]" "[]"] changed_not_committed
  by (simp add: initState_def)

text \<open>
  C1, amended: from the initial state (\<open>lastSign\<close> unknown, counter 0, empty transcript),
  feeding the same known sign commits exactly once in the first 21 calls, on the 21st:
  calls 1 to 20 leave the transcript empty and show the "changed" status, and the 21st
  call makes the transcript that one character and shows the committed status.
\<close>

theorem C1_commit_on_21st_call:
  assumes "c \<noteq> CHR ''?''"
  shows "(\<forall>k. 1 \<le> k \<and> k \<le> 20 \<longrightarrow>
            currentTranslation ((update c ^^ k) (initState r st t)) = []
            \<and> statusText ((update c ^^ k) (initState r st t)) = changedStatus c
            \<and> statusText ((update c ^^ k) (initState r st t)) \<noteq> committedStatus c)
         \<and> currentTranslation ((update c ^^ 21) (initState r st t)) = [c]
         \<and> statusText ((update c ^^ 21) (initState r st t)) = committedStatus c"
proof (intro conjI allI impI)
  fix k :: nat
  assume k: "1 \<le> k \<and> k \<le> 20"
  then obtain j where j: "k = Suc j" "j < 20"
    by (cases k) auto
  have run: "(update c ^^ k) (initState r st t) =
             (initState r st t)\<lparr>lastSign := c, stabilityCount := j,
                                 statusText := changedStatus c\<rparr>"
    unfolding j(1) using assms j(2) by (rule run_from_init)
  show "currentTranslation ((update c ^^ k) (initState r st t)) = []"
    by (simp only: run) (simp add: initState_def)
  show "statusText ((update c ^^ k) (initState r st t)) = changedStatus c"
    by (simp add: run)
  show "statusText ((update c ^^ k) (initState r st t)) \<noteq> committedStatus c"
    by (simp add: run changed_not_committed)
next
  show "currentTranslation ((update c ^^ 21) (initState r st t)) = [c]"
    by (simp add: run_commit_from_init [OF assms])
  show "statusText ((update c ^^ 21) (initState r st t)) = committedStatus c"
    by (simp add: run_commit_from_init [OF assms])
qed

theorem C1_commit_on_21st_call_witness:
  "CHR ''A'' \<noteq> CHR ''?''
   \<and> currentTranslation ((update CHR ''A'' ^^ 20) (initState [] [] [])) = []
   \<and> currentTranslation ((update CHR ''A'' ^^ 21) (initState [] [] [])) = ''A''
   \<and> statusText ((update CHR ''A'' ^^ 21) (initState [] [] [])) = committedStatus CHR ''A''"
  using C1_commit_on_21st_call [of "CHR ''A''" "[]" "[]" "[]"] by simp

text \<open>
  C2, as the specification states it, fails: the 21st call with \<open>A\<close> commits, and 19
  further calls with \<open>A\<close>, the sign never changing, commit \<open>A\<close> a second time.
\<close>

theorem C2_sustained_hold_counterexample:
  "currentTranslation ((update CHR ''A'' ^^ 21) (initState [] [] [])) = ''A''
   \<and> currentTranslation
        ((update CHR ''A'' ^^ 19) ((update CHR ''A'' ^^ 21) (initState [] [] []))) = ''AA''"
proof -
  let ?s20 = "(update CHR ''A'' ^^ 20) (initState [] [] [])"
  have s20: "?s20 = (initState [] [] [])\<lparr>lastSign := CHR ''A'', stabilityCount := 19,
                                          statusText := changedStatus CHR ''A''\<rparr>"
    using run_from_init [of "CHR ''A''" 19 "[]" "[]" "[]"] by simp
  have h: "lastSign ?s20 = CHR ''A''" "stabilityCount ?s20 = 19" "currentTranslation ?s20 = []"
    by (simp_all only: s20) (simp_all add: initState_def)
  have s21: "(update CHR ''A'' ^^ 21) (initState [] [] []) = update CHR ''A'' ?s20"
    by (simp add: eval_nat_numeral)
  have first: "currentTranslation (update CHR ''A'' ?s20) = ''A''"
    using h by (simp add: update_commit)
  have "(update CHR ''A'' ^^ 19) (update CHR ''A'' ?s20) =
        ?s20\<lparr>stabilityCount := 1,
             currentTranslation := currentTranslation ?s20 @ ''AA'',
             translationText := currentTranslation ?s20 @ ''AA'',
             statusText := committedStatus CHR ''A''\<rparr>"
    using h by (intro run_recommit) simp_all
  then have "currentTranslation ((update CHR ''A'' ^^ 19) (update CHR ''A'' ?s20)) = ''AA''"
    using h by simp
  with first show ?thesis
    by (simp only: s21)
qed

text \<open>
  C2, amended: after a commit fires for a sign (the call that finds the counter at 19),
  feeding the same sign commits nothing on the next 18 calls and commits the sign again
  on the 19th call; the sign need not change in between.
\<close>

theorem C2_hold_commits_again_after_19:
  assumes "c \<noteq> CHR ''?''" and "lastSign s = c" and "stabilityCount s = 19"
  shows "currentTranslation (update c s) = currentTranslation s @ [c]
         \<and> (\<forall>k\<le>18. currentTranslation ((update c ^^ k) (update c s)) = currentTranslation s @ [c])
         \<and> currentTranslation ((update c ^^ 19) (update c s)) = currentTranslation s @ [c, c]
         \<and> (\<forall>k\<le>19. lastSign ((update c ^^ k) (update c s)) = c)"
proof (intro conjI allI impI)
  show "currentTranslation (update c s) = currentTranslation s @ [c]"
    by (simp add: update_commit [OF assms])
  show "currentTranslation ((update c ^^ k) (update c s)) = currentTranslation s @ [c]"
    if "k \<le> 18" for k
    by (simp add: run_after_commit [OF assms that])
  show "currentTranslation ((update c ^^ 19) (update c s)) = currentTranslation s @ [c, c]"
    by (simp add: run_recommit [OF assms])
  show "lastSign ((update c ^^ k) (update c s)) = c" if "k \<le> 19" for k
  proof (cases "k \<le> 18")
    case True
    then show ?thesis using assms(2) by (simp add: run_after_commit [OF assms])
  next
    case False
    with that have "k = 19" by simp
    then show ?thesis using assms(2) by (simp add: run_recommit [OF assms])
  qed
qed

theorem C2_hold_commits_again_after_19_witness:
  "CHR ''A'' \<noteq> CHR ''?''
   \<and> lastSign ((update CHR ''A'' ^^ 20) (initState [] [] [])) = CHR ''A''
   \<and> stabilityCount ((update CHR ''A'' ^^ 20) (initState [] [] [])) = 19
   \<and> currentTranslation
        ((update CHR ''A'' ^^ 19)
           (update CHR ''A'' ((update CHR ''A'' ^^ 20) (initState [] [] [])))) = ''AA''"
proof -
  let ?s20 = "(update CHR ''A'' ^^ 20) (initState [] [] [])"
  have s20: "?s20 = (initState [] [] [])\<lparr>lastSign := CHR ''A'', stabilityCount := 19,
                                          statusText := changedStatus CHR ''A''\<rparr>"
    using run_from_init [of "CHR ''A''" 19 "[]" "[]" "[]"] by simp
  have h: "lastSign ?s20 = CHR ''A''" "stabilityCount ?s20 = 19" "currentTranslation ?s20 = []"
    by (simp_all only: s20) (simp_all add: initState_def)
  from C2_hold_commits_again_after_19 [of "CHR ''A''" ?s20] h show ?thesis
    by simp
qed


section \<open>What the operations do to the three variables\<close>

lemma showResult_tracker [simp]:
  "currentTranslation (showResult n c s) = currentTranslation s"
  "lastSign (showResult n c s) = lastSign s"
  "stabilityCount (showResult n c s) = stabilityCount s"
  by (simp_all add: showResult_def Let_def)

lemma clearTranslation_tracker [simp]:
  "currentTranslation (snd (clearTranslation pg s)) = []"
  "lastSign (snd (clearTranslation pg s)) = CHR ''?''"
  "stabilityCount (snd (clearTranslation pg s)) = 0"
  by (simp_all add: clearTranslation_def Let_def)

lemma onResults_cases:
  "snd (onResults ar pg m s) = s
   \<or> (\<exists>n c. snd (onResults ar pg m s) = showResult n c (update c s))
   \<or> snd (onResults ar pg m s) = showResult 0 CHR ''?'' (noHand s)"
  by (auto simp: onResults_def split: option.splits list.splits)

lemma update_unknown_zero:
  "(lastSign s = CHR ''?'' \<longrightarrow> stabilityCount s = 0) \<Longrightarrow>
   lastSign (update c s) = CHR ''?'' \<longrightarrow> stabilityCount (update c s) = 0"
  by (simp add: update_def STABILITY_THRESHOLD_def Let_def)

lemma apply_event_unknown_zero:
  assumes "lastSign s = CHR ''?'' \<longrightarrow> stabilityCount s = 0"
  shows "lastSign (apply_event ar pg e s) = CHR ''?'' \<longrightarrow> stabilityCount (apply_event ar pg e s) = 0"
proof (cases e)
  case (Update c)
  with update_unknown_zero [OF assms, of c] show ?thesis by simp
next
  case NoHand
  then show ?thesis by (simp add: noHand_def)
next
  case (OnResults m)
  from onResults_cases [of ar pg m s] show ?thesis
  proof (elim disjE exE)
    assume "snd (onResults ar pg m s) = s"
    with assms OnResults show ?thesis by simp
  next
    fix n c
    assume "snd (onResults ar pg m s) = showResult n c (update c s)"
    with update_unknown_zero [OF assms, of c] OnResults show ?thesis by simp
  next
    assume "snd (onResults ar pg m s) = showResult 0 CHR ''?'' (noHand s)"
    with OnResults show ?thesis by (simp add: noHand_def)
  qed
next
  case ClearTranslation
  then show ?thesis by simp
qed

lemma run_unknown_zero:
  "lastSign s = CHR ''?'' \<longrightarrow> stabilityCount s = 0 \<Longrightarrow>
   lastSign (run ar pg es s) = CHR ''?'' \<longrightarrow> stabilityCount (run ar pg es s) = 0"
proof (induction es arbitrary: s)
  case Nil
  then show ?case by simp
next
  case (Cons e es)
  from Cons.prems have "lastSign (apply_event ar pg e s) = CHR ''?''
                        \<longrightarrow> stabilityCount (apply_event ar pg e s) = 0"
    by (rule apply_event_unknown_zero)
  then show ?case by (simp add: Cons.IH)
qed

lemma session_unknown_zero:
  "lastSign (run ar pg es (initState r st t)) = CHR ''?''
   \<longrightarrow> stabilityCount (run ar pg es (initState r st t)) = 0"
  by (rule run_unknown_zero) (simp add: initState_def)

lemma run_updates: "run ar pg (replicate k (Update c)) s = (update c ^^ k) s"
  by (induction k arbitrary: s) (simp_all add: funpow_swap1)

lemma update_transcript:
  "currentTranslation (update c s) =
     (if c \<noteq> CHR ''?'' \<and> c = lastSign s \<and> stabilityCount s + 1 = STABILITY_THRESHOLD
      then currentTranslation s @ [c] else currentTranslation s)"
  by (simp add: update_def Let_def)

section \<open>Unknown observations\<close>

text \<open>
  C6: after any sequence of calls from the initial state, a frame classified as
  unknown (\<open>update\<close> with \<open>?\<close>) and a frame without a hand (\<open>noHand\<close>) both leave
  \<open>lastSign\<close> unknown and the counter at 0, and neither changes the transcript. When
  \<open>lastSign\<close> is already unknown \<open>update\<close> writes nothing, and the counter is 0 because
  no sequence of calls leaves an unknown \<open>lastSign\<close> with a positive counter.
\<close>

theorem C6_unknown_resets:
  "lastSign (update CHR ''?'' (run ar pg es (initState r st t))) = CHR ''?''
   \<and> stabilityCount (update CHR ''?'' (run ar pg es (initState r st t))) = 0
   \<and> currentTranslation (update CHR ''?'' (run ar pg es (initState r st t)))
       = currentTranslation (run ar pg es (initState r st t))
   \<and> lastSign (noHand (run ar pg es (initState r st t))) = CHR ''?''
   \<and> stabilityCount (noHand (run ar pg es (initState r st t))) = 0
   \<and> currentTranslation (noHand (run ar pg es (initState r st t)))
       = currentTranslation (run ar pg es (initState r st t))"
proof -
  let ?s = "run ar pg es (initState r st t)"
  have z: "lastSign ?s = CHR ''?'' \<longrightarrow> stabilityCount ?s = 0"
    by (rule session_unknown_zero)
  have "lastSign (update CHR ''?'' ?s) = CHR ''?''"
    by (simp add: update_def Let_def)
  moreover from z have "stabilityCount (update CHR ''?'' ?s) = 0"
    by (simp add: update_def Let_def)
  moreover have "currentTranslation (update CHR ''?'' ?s) = currentTranslation ?s"
    by (simp add: update_transcript)
  ultimately show ?thesis
    by (simp add: noHand_def)
qed

theorem C6_unknown_resets_witness:
  "stabilityCount (run exact fullPage (replicate 7 (Update CHR ''B'')) (initState [] [] [])) = 6
   \<and> lastSign (update CHR ''?'' (run exact fullPage (replicate 7 (Update CHR ''B'')) (initState [] [] [])))
       = CHR ''?''
   \<and> stabilityCount (update CHR ''?''
        (run exact fullPage (replicate 7 (Update CHR ''B'')) (initState [] [] []))) = 0"
proof -
  have "stabilityCount (run exact fullPage (replicate 7 (Update CHR ''B'')) (initState [] [] [])) = 6"
    using run_from_init [of "CHR ''B''" 6 "[]" "[]" "[]"] by (simp add: run_updates)
  with C6_unknown_resets [of exact fullPage "replicate 7 (Update CHR ''B'')" "[]" "[]" "[]"]
  show ?thesis by simp
qed

section \<open>The transcript\<close>

text \<open>
  C7: a call of \<open>update\<close> leaves the transcript as it is or appends the observed sign,
  and it appends only in the commit branch (known sign, equal to \<open>lastSign\<close>, counter
  reaching the threshold), where the status becomes the committed one. A frame without
  a hand leaves the transcript alone, a whole \<open>onResults\<close> call leaves it alone or appends
  one character, and \<open>clearTranslation\<close> empties it. So nothing but \<open>clearTranslation\<close>
  ever removes a character.
\<close>

theorem C7_transcript_only_grows_by_commit:
  "(currentTranslation (update c s) = currentTranslation s
      \<or> currentTranslation (update c s) = currentTranslation s @ [c])
   \<and> (currentTranslation (update c s) \<noteq> currentTranslation s \<longrightarrow>
        c \<noteq> CHR ''?'' \<and> c = lastSign s \<and> stabilityCount s + 1 = STABILITY_THRESHOLD
        \<and> statusText (update c s) = committedStatus c)
   \<and> currentTranslation (noHand s) = currentTranslation s
   \<and> (\<exists>c'. currentTranslation (snd (onResults ar pg m s)) = currentTranslation s
           \<or> currentTranslation (snd (onResults ar pg m s)) = currentTranslation s @ [c'])
   \<and> currentTranslation (snd (clearTranslation pg s)) = []"
proof (intro conjI)
  show "currentTranslation (update c s) = currentTranslation s
        \<or> currentTranslation (update c s) = currentTranslation s @ [c]"
    by (simp add: update_transcript)
  show "currentTranslation (update c s) \<noteq> currentTranslation s \<longrightarrow>
        c \<noteq> CHR ''?'' \<and> c = lastSign s \<and> stabilityCount s + 1 = STABILITY_THRESHOLD
        \<and> statusText (update c s) = committedStatus c"
    by (simp add: update_def Let_def)
  show "currentTranslation (noHand s) = currentTranslation s"
    by (simp add: noHand_def)
  show "\<exists>c'. currentTranslation (snd (onResults ar pg m s)) = currentTranslation s
           \<or> currentTranslation (snd (onResults ar pg m s)) = currentTranslation s @ [c']"
    using onResults_cases [of ar pg m s]
    by (auto simp: update_transcript noHand_def)
  show "currentTranslation (snd (clearTranslation pg s)) = []"
    by simp
qed

theorem C7_transcript_only_grows_by_commit_witness:
  "currentTranslation (update CHR ''A'' ((update CHR ''A'' ^^ 20) (initState [] [] [])))
     = ''A''
   \<and> currentTranslation (update CHR ''A'' ((update CHR ''A'' ^^ 20) (initState [] [] [])))
     \<noteq> currentTranslation ((update CHR ''A'' ^^ 20) (initState [] [] []))
   \<and> statusText (update CHR ''A'' ((update CHR ''A'' ^^ 20) (initState [] [] [])))
     = committedStatus CHR ''A''"
proof -
  let ?s20 = "(update CHR ''A'' ^^ 20) (initState [] [] [])"
  have s20: "?s20 = (initState [] [] [])\<lparr>lastSign := CHR ''A'', stabilityCount := 19,
                                          statusText := changedStatus CHR ''A''\<rparr>"
    using run_from_init [of "CHR ''A''" 19 "[]" "[]" "[]"] by simp
  have h: "lastSign ?s20 = CHR ''A''" "stabilityCount ?s20 = 19" "currentTranslation ?s20 = []"
    by (simp_all only: s20) (simp_all add: initState_def)
  have grown: "currentTranslation (update CHR ''A'' ?s20) = ''A''"
    using h by (simp add: update_commit)
  with h have "currentTranslation (update CHR ''A'' ?s20) \<noteq> currentTranslation ?s20"
    by simp
  with C7_transcript_only_grows_by_commit
         [where c = "CHR ''A''" and s = ?s20 and ar = exact and pg = fullPage and m = None]
       grown show ?thesis
    by simp
qed

section \<open>Reset\<close>

text \<open>
  C8: whatever the state and the page, \<open>clearTranslation\<close> leaves the transcript empty,
  \<open>lastSign\<close> unknown and the counter at 0 (also when the status element is missing and
  the last line throws), and calling it a second time gives the same outcome and state
  as calling it once.
\<close>

theorem C8_reset:
  "currentTranslation (snd (clearTranslation pg s)) = []
   \<and> lastSign (snd (clearTranslation pg s)) = CHR ''?''
   \<and> stabilityCount (snd (clearTranslation pg s)) = 0
   \<and> clearTranslation pg (snd (clearTranslation pg s)) = clearTranslation pg s"
  by (simp add: clearTranslation_def Let_def)

section \<open>Status while a sign is held\<close>

text \<open>
  C9, as the specification states it, fails. The code has one status text that says
  "Holding": the one written when the sign changes. On the call after a commit the sign
  is known, equals \<open>lastSign\<close> and the counter goes from 1 to 2, nothing is committed,
  and the status shown is still the committed one.
\<close>

theorem C9_status_after_commit_counterexample:
  "lastSign ((update CHR ''A'' ^^ 21) (initState [] [] [])) = CHR ''A''
   \<and> stabilityCount ((update CHR ''A'' ^^ 21) (initState [] [] [])) + 1 \<noteq> STABILITY_THRESHOLD
   \<and> currentTranslation (update CHR ''A'' ((update CHR ''A'' ^^ 21) (initState [] [] [])))
       = currentTranslation ((update CHR ''A'' ^^ 21) (initState [] [] []))
   \<and> statusText (update CHR ''A'' ((update CHR ''A'' ^^ 21) (initState [] [] [])))
       = committedStatus CHR ''A''
   \<and> statusText (update CHR ''A'' ((update CHR ''A'' ^^ 21) (initState [] [] [])))
       \<noteq> changedStatus CHR ''A''"
proof -
  let ?s21 = "(update CHR ''A'' ^^ 21) (initState [] [] [])"
  have s21: "?s21 = (initState [] [] [])\<lparr>lastSign := CHR ''A'', stabilityCount := 1,
                  currentTranslation := ''A'', translationText := ''A'',
                  statusText := committedStatus CHR ''A''\<rparr>"
    by (rule run_commit_from_init) simp
  have h: "lastSign ?s21 = CHR ''A''" "stabilityCount ?s21 = 1"
    "statusText ?s21 = committedStatus CHR ''A''"
    by (simp_all only: s21) simp_all
  have "update CHR ''A'' ?s21 = ?s21\<lparr>stabilityCount := stabilityCount ?s21 + 1\<rparr>"
    using h by (intro update_hold) simp_all
  then have "currentTranslation (update CHR ''A'' ?s21) = currentTranslation ?s21"
    and "statusText (update CHR ''A'' ?s21) = committedStatus CHR ''A''"
    using h by simp_all
  with h changed_not_committed [of "CHR ''A''" "CHR ''A''"] show ?thesis
    by (simp add: STABILITY_THRESHOLD_def)
qed

text \<open>
  C9, amended: on every call of \<open>update\<close> where the observed sign is known, equals
  \<open>lastSign\<close>, and the incremented counter has not reached the threshold, nothing is
  committed and no status is written: the call only increments the counter, and the
  status text stays what the previous call left.
\<close>

theorem C9_hold_keeps_status:
  assumes "c \<noteq> CHR ''?''" and "c = lastSign s"
    and "stabilityCount s + 1 \<noteq> STABILITY_THRESHOLD"
  shows "currentTranslation (update c s) = currentTranslation s
         \<and> statusText (update c s) = statusText s
         \<and> update c s = s\<lparr>stabilityCount := stabilityCount s + 1\<rparr>"
  using assms by (simp add: update_def Let_def)

theorem C9_hold_keeps_status_witness:
  "CHR ''B'' \<noteq> CHR ''?''
   \<and> CHR ''B'' = lastSign ((update CHR ''B'' ^^ 5) (initState [] [] []))
   \<and> stabilityCount ((update CHR ''B'' ^^ 5) (initState [] [] [])) + 1 \<noteq> STABILITY_THRESHOLD
   \<and> statusText (update CHR ''B'' ((update CHR ''B'' ^^ 5) (initState [] [] [])))
       = changedStatus CHR ''B''
   \<and> currentTranslation (update CHR ''B'' ((update CHR ''B'' ^^ 5) (initState [] [] []))) = []"
proof -
  let ?s5 = "(update CHR ''B'' ^^ 5) (initState [] [] [])"
  have s5: "?s5 = (initState [] [] [])\<lparr>lastSign := CHR ''B'', stabilityCount := 4,
                                        statusText := changedStatus CHR ''B''\<rparr>"
    using run_from_init [of "CHR ''B''" 4 "[]" "[]" "[]"] by simp
  have h: "CHR ''B'' = lastSign ?s5" "stabilityCount ?s5 + 1 \<noteq> STABILITY_THRESHOLD"
    "statusText ?s5 = changedStatus CHR ''B''" "currentTranslation ?s5 = []"
    by (simp_all only: s5) (simp_all add: initState_def STABILITY_THRESHOLD_def)
  from C9_hold_keeps_status [OF _ h(1,2)] h show ?thesis
    by simp
qed

section \<open>The counter and the last sign\<close>

text \<open>
  C10: after any sequence of calls from the initial state (the debounce block, frames
  without a hand, whole \<open>onResults\<close> calls, \<open>clearTranslation\<close>), a positive counter
  means that \<open>lastSign\<close> is a known sign.
\<close>

theorem C10_counter_positive_sign_known:
  assumes "0 < stabilityCount (run ar pg es (initState r st t))"
  shows "lastSign (run ar pg es (initState r st t)) \<noteq> CHR ''?''"
  using session_unknown_zero [of ar pg es r st t] assms by auto

theorem C10_counter_positive_sign_known_witness:
  "0 < stabilityCount (run exact fullPage (replicate 3 (Update CHR ''A'')) (initState [] [] []))
   \<and> lastSign (run exact fullPage (replicate 3 (Update CHR ''A'')) (initState [] [] [])) \<noteq> CHR ''?''"
proof -
  have pos: "0 < stabilityCount (run exact fullPage (replicate 3 (Update CHR ''A'')) (initState [] [] []))"
    using run_from_init [of "CHR ''A''" 2 "[]" "[]" "[]"] by (simp add: run_updates)
  from C10_counter_positive_sign_known [OF pos] pos show ?thesis
    by simp
qed


section \<open>The finger tests and the classifier\<close>

lemma landmark_at_hand:
  "i < length landmarks \<Longrightarrow> landmark_at landmarks i = Some (landmarks ! i)"
  by (simp add: landmark_at_def)

lemma landmark_at_short:
  "length landmarks \<le> i \<Longrightarrow> landmark_at landmarks i = None"
  by (simp add: landmark_at_def)

lemma distance_Some: "\<exists>d. distance ar (Some a) (Some b) = Some d"
  by (simp add: distance_def)

lemma distance_None [simp]: "distance ar None q = None" "distance ar p None = None"
  by (simp_all add: distance_def split: Option.bind_split)

text \<open>What \<open>isExtended\<close> computes on a non-thumb finger.\<close>

lemma isExtended_finger:
  assumes "finger \<noteq> THUMB"
  shows "isExtended ar landmarks finger = do {
           pip \<leftarrow> landmark_at landmarks (joints finger ! 1);
           tip \<leftarrow> landmark_at landmarks (joints finger ! 3);
           mcp \<leftarrow> landmark_at landmarks (joints finger ! 0);
           Some (n_lt ar (coord_y tip) (coord_y pip) \<and> n_lt ar (coord_y tip) (coord_y mcp))
         }"
  using assms
  by (simp add: isExtended_def getprop_def Let_def split: Option.bind_split)

text \<open>
  What it computes on the thumb: the MCP joint (landmark 2) is never read, and the
  second distance is the one from the CMC joint to itself.
\<close>

lemma isExtended_thumb:
  "isExtended ar landmarks THUMB = do {
      tip \<leftarrow> landmark_at landmarks THUMB_TIP;
      cmc \<leftarrow> landmark_at landmarks THUMB_CMC;
      cmc_tip \<leftarrow> distance ar (Some cmc) (Some tip);
      cmc_cmc \<leftarrow> distance ar (Some cmc) (Some cmc);
      Some (n_lt ar (n_mul ar cmc_cmc (n_lit ar 1.5)) cmc_tip
            \<and> n_lt ar (coord_z tip) (coord_z cmc))
   }"
  by (auto simp: isExtended_def getprop_def distance_def Let_def split: Option.bind_split)

text \<open>In exact arithmetic that is the depth test against the CMC joint alone.\<close>

lemma isExtended_thumb_exact:
  "isExtended exact landmarks THUMB = do {
      tip \<leftarrow> landmark_at landmarks THUMB_TIP;
      cmc \<leftarrow> landmark_at landmarks THUMB_CMC;
      Some (coord_z tip < coord_z cmc)
   }"
proof -
  have pos: "0 < (coord_x a - coord_x b)\<^sup>2 + (coord_y a - coord_y b)\<^sup>2
                 + (coord_z a - coord_z b)\<^sup>2"
    if "coord_z b < coord_z a" for a b :: "real landmark"
  proof -
    from that have "0 < (coord_z a - coord_z b)\<^sup>2" by simp
    then show ?thesis
      by (intro add_nonneg_pos add_nonneg_nonneg) simp_all
  qed
  show ?thesis
    by (auto simp: isExtended_thumb distance_def exact_def pos split: Option.bind_split)
qed

lemma isExtended_total:
  assumes "21 \<le> length landmarks"
  shows "\<exists>b. isExtended ar landmarks finger = Some b"
  using assms
  by (cases finger)
     (simp_all add: isExtended_thumb isExtended_finger landmark_at_hand distance_def
        LANDMARK_INDICES)

lemma landmark_at_take:
  "i < n \<Longrightarrow> landmark_at (take n landmarks) i = landmark_at landmarks i"
  by (simp add: landmark_at_def)

lemma isExtended_take:
  "isExtended ar (take 21 landmarks) finger = isExtended ar landmarks finger"
  by (cases finger)
     (simp_all add: isExtended_thumb isExtended_finger landmark_at_take LANDMARK_INDICES)

lemma isExtended_short:
  assumes "length landmarks < 21"
  shows "isExtended ar landmarks PINKY_FINGER = None"
  using assms
  by (simp add: isExtended_finger landmark_at_short LANDMARK_INDICES split: Option.bind_split)

lemma classify_short:
  assumes "0 < length landmarks" and "length landmarks < 21"
  shows "classifyLetterGesture ar (Some landmarks) = None"
  using assms
  by (simp add: classifyLetterGesture_def isExtended_short split: Option.bind_split)

lemma classify_take:
  assumes "21 \<le> length landmarks"
  shows "classifyLetterGesture ar (Some (take 21 landmarks))
         = classifyLetterGesture ar (Some landmarks)"
proof -
  from assms have "length landmarks \<noteq> 0" "landmarks \<noteq> []" by auto
  with assms show ?thesis
    by (simp add: classifyLetterGesture_def isExtended_take landmark_at_take LANDMARK_INDICES
             cong: if_cong)
qed

text \<open>The decision list, once the five finger tests and the four distances are known.\<close>

lemma classify_hand:
  assumes "landmarks \<noteq> []"
    and "isExtended ar landmarks THUMB = Some t"
    and "isExtended ar landmarks INDEX_FINGER = Some i"
    and "isExtended ar landmarks MIDDLE_FINGER = Some m"
    and "isExtended ar landmarks RING_FINGER = Some r"
    and "isExtended ar landmarks PINKY_FINGER = Some p"
    and "distance ar (landmark_at landmarks WRIST) (landmark_at landmarks PINKY_MCP)
           = Some handSize"
    and "distance ar (landmark_at landmarks INDEX_TIP) (landmark_at landmarks PINKY_TIP)
           = Some tipDist"
    and "distance ar (landmark_at landmarks THUMB_TIP) (landmark_at landmarks INDEX_TIP)
           = Some pinch"
    and "distance ar (landmark_at landmarks THUMB_TIP) (landmark_at landmarks INDEX_MCP)
           = Some tuck"
  shows "classifyLetterGesture ar (Some landmarks) =
     Some (if t \<and> i \<and> \<not> m \<and> \<not> r \<and> \<not> p then CHR ''L''
           else if n_lt ar pinch (n_lit ar 0.08) \<and> m \<and> r \<and> p then CHR ''F''
           else if i \<and> m \<and> r \<and> p \<and> n_lt ar tuck (n_mul ar handSize (n_lit ar 0.25))
             then CHR ''B''
           else if \<not> i \<and> \<not> m \<and> \<not> r \<and> \<not> p
                   \<and> n_lt ar (n_mul ar handSize (n_lit ar 0.5)) tipDist
                   \<and> n_lt ar (n_mul ar handSize (n_lit ar 0.15)) tuck then CHR ''C''
           else if \<not> i \<and> \<not> m \<and> \<not> r \<and> \<not> p then CHR ''A''
           else CHR ''?'')"
  unfolding classifyLetterGesture_def
  by (simp add: assms Let_def cong: if_cong)

lemma classify_total:
  assumes "21 \<le> length landmarks"
  shows "\<exists>c. classifyLetterGesture ar (Some landmarks) = Some c"
proof -
  from assms have nonempty: "landmarks \<noteq> []" by auto
  obtain t i m r p where ext:
    "isExtended ar landmarks THUMB = Some t" "isExtended ar landmarks INDEX_FINGER = Some i"
    "isExtended ar landmarks MIDDLE_FINGER = Some m" "isExtended ar landmarks RING_FINGER = Some r"
    "isExtended ar landmarks PINKY_FINGER = Some p"
    using isExtended_total [OF assms] by metis
  obtain handSize tipDist pinch tuck where d:
    "distance ar (landmark_at landmarks WRIST) (landmark_at landmarks PINKY_MCP) = Some handSize"
    "distance ar (landmark_at landmarks INDEX_TIP) (landmark_at landmarks PINKY_TIP) = Some tipDist"
    "distance ar (landmark_at landmarks THUMB_TIP) (landmark_at landmarks INDEX_TIP) = Some pinch"
    "distance ar (landmark_at landmarks THUMB_TIP) (landmark_at landmarks INDEX_MCP) = Some tuck"
    using assms nonempty by (simp add: landmark_at_hand distance_def LANDMARK_INDICES)
  show ?thesis
    by (simp only: classify_hand [OF nonempty ext d]) simp
qed

text \<open>
  C3, as the specification states it, fails: on an array of one landmark the classifier
  reads \<open>landmarks[4].z\<close>, a property of \<open>undefined\<close>, and throws instead of returning
  unknown.
\<close>

theorem C3_short_array_counterexample:
  "classifyLetterGesture exact (Some [\<lparr>coord_x = 0, coord_y = 0, coord_z = 0\<rparr>]) = None
   \<and> classifyLetterGesture exact (Some [\<lparr>coord_x = 0, coord_y = 0, coord_z = 0\<rparr>])
       \<noteq> Some CHR ''?''"
  by (simp add: classify_short)

text \<open>
  C3, amended: the classifier returns unknown, without throwing, for a missing
  landmark array and for an empty one; on an array of 21 or more landmarks it never
  throws, and its answer is the one for the first 21. On a non-empty array of fewer
  than 21 landmarks it throws a TypeError. This holds whatever the arithmetic.
\<close>

theorem C3_classify_guard:
  "classifyLetterGesture ar None = Some CHR ''?''
   \<and> classifyLetterGesture ar (Some []) = Some CHR ''?''
   \<and> (21 \<le> length landmarks \<longrightarrow>
        (\<exists>c. classifyLetterGesture ar (Some landmarks) = Some c)
        \<and> classifyLetterGesture ar (Some landmarks)
            = classifyLetterGesture ar (Some (take 21 landmarks)))
   \<and> (0 < length landmarks \<and> length landmarks < 21 \<longrightarrow>
        classifyLetterGesture ar (Some landmarks) = None)"
  by (simp add: classify_total classify_take classify_short)
     (simp add: classifyLetterGesture_def)

theorem C3_classify_guard_witness:
  "21 \<le> length (replicate 21 origin)
   \<and> classifyLetterGesture exact (Some (replicate 21 origin)) \<noteq> None
   \<and> 0 < length [origin] \<and> length [origin] < 21
   \<and> classifyLetterGesture exact (Some [origin]) = None"
  using C3_classify_guard [of exact "replicate 21 origin"] C3_classify_guard [of exact "[origin]"]
  by auto

text \<open>
  C4: for a hand of 21 landmarks whose index, middle, ring and pinky fingers all test
  as not extended, the classifier returns \<open>C\<close> exactly when the index-tip to pinky-tip
  distance exceeds the hand size times 0.5 and the thumb-tip to index-base distance
  exceeds the hand size times 0.15, and returns \<open>A\<close> otherwise. The three distances,
  the two products and the two comparisons are the ones the script computes, in
  whatever arithmetic it computes them: the statement holds for every \<open>ar\<close>, so for
  the doubles too.
\<close>

theorem C4_all_curled_C_or_A:
  assumes "length landmarks = 21"
    and "isExtended ar landmarks INDEX_FINGER = Some False"
    and "isExtended ar landmarks MIDDLE_FINGER = Some False"
    and "isExtended ar landmarks RING_FINGER = Some False"
    and "isExtended ar landmarks PINKY_FINGER = Some False"
    and "distance ar (landmark_at landmarks WRIST) (landmark_at landmarks PINKY_MCP)
           = Some handSize"
    and "distance ar (landmark_at landmarks INDEX_TIP) (landmark_at landmarks PINKY_TIP)
           = Some tipSpread"
    and "distance ar (landmark_at landmarks THUMB_TIP) (landmark_at landmarks INDEX_MCP)
           = Some thumbTuck"
  shows "classifyLetterGesture ar (Some landmarks) =
           Some (if n_lt ar (n_mul ar handSize (n_lit ar 0.5)) tipSpread
                    \<and> n_lt ar (n_mul ar handSize (n_lit ar 0.15)) thumbTuck
                 then CHR ''C'' else CHR ''A'')"
proof -
  from assms(1) have nonempty: "landmarks \<noteq> []" by auto
  obtain t where t: "isExtended ar landmarks THUMB = Some t"
    using isExtended_total [of landmarks ar THUMB] assms(1) by auto
  obtain pinch where pinch:
    "distance ar (landmark_at landmarks THUMB_TIP) (landmark_at landmarks INDEX_TIP) = Some pinch"
    using assms(1) by (simp add: landmark_at_hand distance_def LANDMARK_INDICES)
  show ?thesis
    by (simp only: classify_hand [OF nonempty t assms(2-7) pinch assms(8)]) simp
qed

theorem C4_all_curled_C_or_A_witness:
  "length ((replicate 21 origin)
            [4 := \<lparr>coord_x = 0, coord_y = 0, coord_z = 1\<rparr>,
             17 := \<lparr>coord_x = 1, coord_y = 0, coord_z = 0\<rparr>,
             20 := \<lparr>coord_x = 1, coord_y = 0, coord_z = 0\<rparr>]) = 21
   \<and> classifyLetterGesture exact (Some ((replicate 21 origin)
            [4 := \<lparr>coord_x = 0, coord_y = 0, coord_z = 1\<rparr>,
             17 := \<lparr>coord_x = 1, coord_y = 0, coord_z = 0\<rparr>,
             20 := \<lparr>coord_x = 1, coord_y = 0, coord_z = 0\<rparr>])) = Some CHR ''C''
   \<and> classifyLetterGesture exact (Some (replicate 21 origin)) = Some CHR ''A''"
proof -
  let ?h = "(replicate 21 origin)
            [4 := \<lparr>coord_x = 0, coord_y = 0, coord_z = 1\<rparr>,
             17 := \<lparr>coord_x = 1, coord_y = 0, coord_z = 0\<rparr>,
             20 := \<lparr>coord_x = 1, coord_y = 0, coord_z = 0\<rparr>]"
  have len: "length ?h = 21" by simp
  have curled:
    "isExtended exact ?h INDEX_FINGER = Some False" "isExtended exact ?h MIDDLE_FINGER = Some False"
    "isExtended exact ?h RING_FINGER = Some False" "isExtended exact ?h PINKY_FINGER = Some False"
    by (simp_all add: isExtended_finger landmark_at_def origin_def exact_def LANDMARK_INDICES)
  have d: "distance exact (landmark_at ?h WRIST) (landmark_at ?h PINKY_MCP) = Some 1"
    "distance exact (landmark_at ?h INDEX_TIP) (landmark_at ?h PINKY_TIP) = Some 1"
    "distance exact (landmark_at ?h THUMB_TIP) (landmark_at ?h INDEX_MCP) = Some 1"
    by (simp_all add: distance_def landmark_at_def origin_def exact_def LANDMARK_INDICES)
  have C: "classifyLetterGesture exact (Some ?h) = Some CHR ''C''"
    using C4_all_curled_C_or_A [OF len curled d] by (simp add: exact_def)
  let ?f = "replicate 21 origin"
  have len': "length ?f = 21" by simp
  have curled':
    "isExtended exact ?f INDEX_FINGER = Some False" "isExtended exact ?f MIDDLE_FINGER = Some False"
    "isExtended exact ?f RING_FINGER = Some False" "isExtended exact ?f PINKY_FINGER = Some False"
    by (simp_all add: isExtended_finger landmark_at_def origin_def exact_def LANDMARK_INDICES)
  have d': "distance exact (landmark_at ?f WRIST) (landmark_at ?f PINKY_MCP) = Some 0"
    "distance exact (landmark_at ?f INDEX_TIP) (landmark_at ?f PINKY_TIP) = Some 0"
    "distance exact (landmark_at ?f THUMB_TIP) (landmark_at ?f INDEX_MCP) = Some 0"
    by (simp_all add: distance_def landmark_at_def origin_def exact_def LANDMARK_INDICES)
  have A: "classifyLetterGesture exact (Some ?f) = Some CHR ''A''"
    using C4_all_curled_C_or_A [OF len' curled' d'] by (simp add: exact_def)
  from len C A show ?thesis by simp
qed

text \<open>
  On the other four fingers \<open>isExtended\<close> is the test the specification words, whatever
  the arithmetic.
\<close>

lemma isExtended_finger_spec:
  "finger \<noteq> THUMB \<Longrightarrow> isExtended ar landmarks finger = isExtended_spec ar landmarks finger"
  by (auto simp add: isExtended_finger isExtended_spec_def split: Option.bind_split)

text \<open>
  C5 does not hold of the thumb. \<open>isExtended\<close> reads its \<open>mcp\<close> from \<open>finger[0]\<close>, which
  for the thumb array is the CMC joint, so the distance "from CMC to MCP" is the distance
  from the CMC joint to itself and the depth test compares the tip with the CMC joint
  (lemma \<open>isExtended_thumb\<close>). The two hands below have coordinates 0, 1 and 2, on which
  the script's arithmetic is exact. On the first, with the thumb's CMC joint at depth 1
  and every other landmark at the origin, \<open>isExtended\<close> answers true where the
  specification's test answers false. On the second, with the thumb's MCP joint at
  depth 1 and its tip two units out, \<open>isExtended\<close> answers false where the
  specification's test answers true.
\<close>

theorem C5_thumb_test_reads_cmc_for_mcp:
  "isExtended exact ((replicate 21 origin)[1 := \<lparr>coord_x = 0, coord_y = 0, coord_z = 1\<rparr>]) THUMB
     = Some True
   \<and> isExtended_spec exact
        ((replicate 21 origin)[1 := \<lparr>coord_x = 0, coord_y = 0, coord_z = 1\<rparr>]) THUMB
     = Some False
   \<and> isExtended exact ((replicate 21 origin)[2 := \<lparr>coord_x = 0, coord_y = 0, coord_z = 1\<rparr>,
                                             4 := \<lparr>coord_x = 2, coord_y = 0, coord_z = 0\<rparr>]) THUMB
     = Some False
   \<and> isExtended_spec exact
        ((replicate 21 origin)[2 := \<lparr>coord_x = 0, coord_y = 0, coord_z = 1\<rparr>,
                               4 := \<lparr>coord_x = 2, coord_y = 0, coord_z = 0\<rparr>]) THUMB
     = Some True"
  by (simp add: isExtended_def isExtended_spec_def getprop_def landmark_at_def distance_def
        origin_def exact_def LANDMARK_INDICES)

end
